theory Spec2Isabelle
  imports Main "HOL-Library.Word"
begin

unbundle bit_operations_syntax

section \<open>Token hasher (repositories.HashToken)\<close>

text \<open>
  \<^verbatim>\<open>HashToken\<close> is \<^verbatim>\<open>hex.EncodeToString(sha256.Sum256([]byte(token)))\<close>.
  A Go string is a sequence of bytes, modelled as a \<^typ>\<open>string\<close> (a list of 8-bit
  characters). \<^verbatim>\<open>sha256.Sum256\<close> is written out as the SHA-256 function of
  FIPS 180-4 (padding, message schedule, 64 rounds per 64-byte block) on 32-bit words, and
  \<^verbatim>\<open>hex.EncodeToString\<close> as two characters of the lower-case table per byte.
\<close>

type_synonym byte = "8 word"
type_synonym u32 = "32 word"
type_synonym digest_state = "u32 \<times> u32 \<times> u32 \<times> u32 \<times> u32 \<times> u32 \<times> u32 \<times> u32"

definition K256 :: "u32 list" where
  "K256 = [
    0x428A2F98, 0x71374491, 0xB5C0FBCF, 0xE9B5DBA5, 0x3956C25B, 0x59F111F1, 0x923F82A4, 0xAB1C5ED5,
    0xD807AA98, 0x12835B01, 0x243185BE, 0x550C7DC3, 0x72BE5D74, 0x80DEB1FE, 0x9BDC06A7, 0xC19BF174,
    0xE49B69C1, 0xEFBE4786, 0x0FC19DC6, 0x240CA1CC, 0x2DE92C6F, 0x4A7484AA, 0x5CB0A9DC, 0x76F988DA,
    0x983E5152, 0xA831C66D, 0xB00327C8, 0xBF597FC7, 0xC6E00BF3, 0xD5A79147, 0x06CA6351, 0x14292967,
    0x27B70A85, 0x2E1B2138, 0x4D2C6DFC, 0x53380D13, 0x650A7354, 0x766A0ABB, 0x81C2C92E, 0x92722C85,
    0xA2BFE8A1, 0xA81A664B, 0xC24B8B70, 0xC76C51A3, 0xD192E819, 0xD6990624, 0xF40E3585, 0x106AA070,
    0x19A4C116, 0x1E376C08, 0x2748774C, 0x34B0BCB5, 0x391C0CB3, 0x4ED8AA4A, 0x5B9CCA4F, 0x682E6FF3,
    0x748F82EE, 0x78A5636F, 0x84C87814, 0x8CC70208, 0x90BEFFFA, 0xA4506CEB, 0xBEF9A3F7, 0xC67178F2]"

definition init256 :: digest_state where
  "init256 = (0x6A09E667, 0xBB67AE85, 0x3C6EF372, 0xA54FF53A,
              0x510E527F, 0x9B05688C, 0x1F83D9AB, 0x5BE0CD19)"

definition Ch :: "u32 \<Rightarrow> u32 \<Rightarrow> u32 \<Rightarrow> u32" where
  "Ch x y z = (x AND y) XOR (NOT x AND z)"

definition Maj :: "u32 \<Rightarrow> u32 \<Rightarrow> u32 \<Rightarrow> u32" where
  "Maj x y z = (x AND y) XOR (x AND z) XOR (y AND z)"

definition bsig0 :: "u32 \<Rightarrow> u32" where
  "bsig0 x = word_rotr 2 x XOR word_rotr 13 x XOR word_rotr 22 x"

definition bsig1 :: "u32 \<Rightarrow> u32" where
  "bsig1 x = word_rotr 6 x XOR word_rotr 11 x XOR word_rotr 25 x"

definition ssig0 :: "u32 \<Rightarrow> u32" where
  "ssig0 x = word_rotr 7 x XOR word_rotr 18 x XOR drop_bit 3 x"

definition ssig1 :: "u32 \<Rightarrow> u32" where
  "ssig1 x = word_rotr 17 x XOR word_rotr 19 x XOR drop_bit 10 x"

definition be32 :: "byte \<Rightarrow> byte \<Rightarrow> byte \<Rightarrow> byte \<Rightarrow> u32" where
  "be32 a b c d = push_bit 24 (ucast a) OR push_bit 16 (ucast b) OR push_bit 8 (ucast c) OR ucast d"

fun block_words :: "byte list \<Rightarrow> u32 list" where
  "block_words (a # b # c # d # bs) = be32 a b c d # block_words bs"
| "block_words _ = []"

fun extend_schedule :: "nat \<Rightarrow> u32 list \<Rightarrow> u32 list" where
  "extend_schedule 0 w = w"
| "extend_schedule (Suc n) w =
     extend_schedule n (w @ [ssig1 (w ! (length w - 2)) + w ! (length w - 7)
                    + ssig0 (w ! (length w - 15)) + w ! (length w - 16)])"

definition schedule :: "byte list \<Rightarrow> u32 list" where
  "schedule blk = extend_schedule 48 (block_words blk)"

fun round256 :: "u32 \<times> u32 \<Rightarrow> digest_state \<Rightarrow> digest_state" where
  "round256 (k, w) (a, b, c, d, e, f, g, h) =
     (let t1 = h + bsig1 e + Ch e f g + k + w;
          t2 = bsig0 a + Maj a b c
      in (t1 + t2, a, b, c, d + t1, e, f, g))"

fun add_state :: "digest_state \<Rightarrow> digest_state \<Rightarrow> digest_state" where
  "add_state (a, b, c, d, e, f, g, h) (a', b', c', d', e', f', g', h') =
     (a + a', b + b', c + c', d + d', e + e', f + f', g + g', h + h')"

definition compress :: "digest_state \<Rightarrow> byte list \<Rightarrow> digest_state" where
  "compress st blk = add_state st (fold round256 (zip K256 (schedule blk)) st)"

function blocks :: "digest_state \<Rightarrow> byte list \<Rightarrow> digest_state" where
  "blocks st bs = (if length bs < 64 then st else blocks (compress st (take 64 bs)) (drop 64 bs))"
  by pat_completeness auto
termination
  by (relation "measure (\<lambda>(st, bs). length bs)") auto

declare blocks.simps [simp del]

definition be64_bytes :: "64 word \<Rightarrow> byte list" where
  "be64_bytes n = map (\<lambda>i. ucast (drop_bit (8 * i) n)) [7, 6, 5, 4, 3, 2, 1, 0]"

definition pad256 :: "byte list \<Rightarrow> byte list" where
  "pad256 m = m @ [0x80] @ replicate ((119 - length m mod 64) mod 64) 0
                @ be64_bytes (of_nat (8 * length m))"

definition be32_bytes :: "u32 \<Rightarrow> byte list" where
  "be32_bytes x = [ucast (drop_bit 24 x), ucast (drop_bit 16 x), ucast (drop_bit 8 x), ucast x]"

fun state_bytes :: "digest_state \<Rightarrow> byte list" where
  "state_bytes (a, b, c, d, e, f, g, h) =
     be32_bytes a @ be32_bytes b @ be32_bytes c @ be32_bytes d
     @ be32_bytes e @ be32_bytes f @ be32_bytes g @ be32_bytes h"

definition Sum256 :: "byte list \<Rightarrow> byte list" where
  "Sum256 m = state_bytes (blocks init256 (pad256 m))"

definition hextable :: string where
  "hextable = ''0123456789abcdef''"

definition EncodeToString :: "byte list \<Rightarrow> string" where
  "EncodeToString src = concat (map (\<lambda>v. [hextable ! unat (drop_bit 4 v), hextable ! unat (v AND 0x0f)]) src)"

definition string_bytes :: "string \<Rightarrow> byte list" where
  "string_bytes s = map of_char s"

definition HashToken :: "string \<Rightarrow> string" where
  "HashToken token = EncodeToString (Sum256 (string_bytes token))"

section \<open>Data model (models.RefreshToken)\<close>

text \<open>
  \<^verbatim>\<open>uuid.UUID\<close> is 16 bytes; its \<^verbatim>\<open>String()\<close> is the canonical
  8-4-4-4-12 lower-case hexadecimal form. \<^verbatim>\<open>time.Time\<close> is taken as the number
  of nanoseconds since the Unix epoch, \<^verbatim>\<open>time.Duration\<close> as nanoseconds, and
  \<^verbatim>\<open>Unix()\<close> as the whole seconds (rounded down).
\<close>

type_synonym uuid = "128 word"
type_synonym Time = int
type_synonym Duration = int

definition uuid_bytes :: "uuid \<Rightarrow> byte list" where
  "uuid_bytes u = map (\<lambda>i. ucast (drop_bit (8 * i) u)) (rev [0..<16])"

definition uuid_String :: "uuid \<Rightarrow> string" where
  "uuid_String u =
     (let h = EncodeToString (uuid_bytes u)
      in take 8 h @ ''-'' @ take 4 (drop 8 h) @ ''-'' @ take 4 (drop 12 h) @ ''-''
         @ take 4 (drop 16 h) @ ''-'' @ drop 20 h)"

definition Second :: Duration where
  "Second = 1000000000"

definition Minute :: Duration where
  "Minute = 60 * Second"

definition Hour :: Duration where
  "Hour = 60 * Minute"

definition Add :: "Time \<Rightarrow> Duration \<Rightarrow> Time" where
  "Add t d = t + d"

definition Unix :: "Time \<Rightarrow> int" where
  "Unix t = t div 1000000000"

text \<open>
  The columns of the \<^verbatim>\<open>refresh_tokens\<close> table. The \<^verbatim>\<open>User\<close> field of the Go
  struct is the association behind \<^verbatim>\<open>UserID\<close>, not a column.
\<close>

record RefreshToken =
  ID :: uuid
  UserID :: uuid
  TokenHash :: string
  IsRevoked :: bool
  ExpiresAt :: Time
  CreatedAt :: Time

type_synonym table = "RefreshToken list"

text \<open>
  The errors the functions return: \<^verbatim>\<open>gorm.ErrRecordNotFound\<close>, the value of
  \<^verbatim>\<open>fmt.Errorf(msg)\<close>, an error of the JWT signing call, and any other error of a
  database statement.
\<close>

datatype error = ErrRecordNotFound | Errorf string | SigningErr string | DBErr string

section \<open>What a call reads from outside (clock, signer, identifiers, statement failures)\<close>

text \<open>
  \<^verbatim>\<open>helpers.GenerateToken\<close> builds the claims \<^verbatim>\<open>iss\<close> and \<^verbatim>\<open>exp\<close>
  (\<^verbatim>\<open>expirationTime.Unix()\<close>) and has the JWT library sign them with HS256 under
  \<^verbatim>\<open>SecretKey\<close>. The library call is a parameter: a function of the key and the
  claims that returns Go's pair of a string and an error.
\<close>

record MapClaims =
  claim_iss :: string
  claim_exp :: int

text \<open>
  One \<open>world\<close> value holds everything one call of a function of the
  repository reads from outside: the signing function, the readings of \<^verbatim>\<open>time.Now()\<close>
  in the order of the source (\<open>now1\<close> for the access token, \<open>now2\<close> for the refresh
  token, \<open>now3\<close> for \<^verbatim>\<open>ExpiresAt\<close>, \<open>now_created\<close> for the
  \<^verbatim>\<open>CreatedAt\<close> that gorm fills in), the identifier \<^verbatim>\<open>uuid.New()\<close> returns in
  \<^verbatim>\<open>BeforeCreate\<close>, and for each writing statement the error it ends with, if any
  (\<open>update_err\<close> for \<^verbatim>\<open>Update("is_revoked", true)\<close>, \<open>save_err\<close> for
  \<^verbatim>\<open>Save\<close>, \<open>create_err\<close> for \<^verbatim>\<open>Create\<close>). The database is SQLite: a
  statement that fails changes no row and leaves the transaction open. Queries, \<^verbatim>\<open>Begin\<close>,
  \<^verbatim>\<open>Commit\<close> and \<^verbatim>\<open>Rollback\<close> are taken to execute.
\<close>

record world =
  SignedString :: "string \<Rightarrow> MapClaims \<Rightarrow> string \<times> error option"
  now1 :: Time
  now2 :: Time
  now3 :: Time
  now_created :: Time
  new_uuid :: uuid
  update_err :: "error option"
  save_err :: "error option"
  create_err :: "error option"

definition SecretKey :: string where
  "SecretKey = ''secret''"

definition GenerateToken :: "world \<Rightarrow> string \<Rightarrow> Time \<Rightarrow> string \<times> error option" where
  "GenerateToken w issuer expirationTime =
     SignedString w SecretKey \<lparr>claim_iss = issuer, claim_exp = Unix expirationTime\<rparr>"

section \<open>The statements on the table\<close>

text \<open>
  \<^verbatim>\<open>First\<close> orders by the primary key and takes one row: of the rows that match, the
  one with the least \<^verbatim>\<open>ID\<close>; with no matching row its error is
  \<^verbatim>\<open>ErrRecordNotFound\<close>.
\<close>

fun least_ID :: "RefreshToken list \<Rightarrow> RefreshToken option" where
  "least_ID [] = None"
| "least_ID (r # rs) =
     (case least_ID rs of
        None \<Rightarrow> Some r
      | Some m \<Rightarrow> if ID r \<le> ID m then Some r else Some m)"

definition First :: "table \<Rightarrow> string \<Rightarrow> error + RefreshToken" where
  "First t hash =
     (case least_ID (filter (\<lambda>r. TokenHash r = hash) t) of
        None \<Rightarrow> Inl ErrRecordNotFound
      | Some r \<Rightarrow> Inr r)"

text \<open>\<^verbatim>\<open>Model(&RefreshToken{}).Where("user_id=?", uid).Update("is_revoked", true)\<close>\<close>

definition Update_by_user :: "error option \<Rightarrow> uuid \<Rightarrow> table \<Rightarrow> table" where
  "Update_by_user err uid t =
     (case err of
        Some e \<Rightarrow> t
      | None \<Rightarrow> map (\<lambda>r. if UserID r = uid then r\<lparr>IsRevoked := True\<rparr> else r) t)"

text \<open>\<^verbatim>\<open>Model(&RefreshToken{}).Where("token_hash = ?", hash).Update("is_revoked", true)\<close>\<close>

definition Update_by_hash :: "error option \<Rightarrow> string \<Rightarrow> table \<Rightarrow> table" where
  "Update_by_hash err hash t =
     (case err of
        Some e \<Rightarrow> t
      | None \<Rightarrow> map (\<lambda>r. if TokenHash r = hash then r\<lparr>IsRevoked := True\<rparr> else r) t)"

text \<open>
  \<^verbatim>\<open>Save(&dbToken)\<close> writes every column of the row whose primary key is that of
  \<^verbatim>\<open>dbToken\<close>. The row was read in the same transaction, so the update finds it
  (gorm's insert for an update that finds no row is not reached).
\<close>

definition Save :: "error option \<Rightarrow> RefreshToken \<Rightarrow> table \<Rightarrow> table" where
  "Save err v t =
     (case err of
        Some e \<Rightarrow> t
      | None \<Rightarrow> map (\<lambda>r. if ID r = ID v then v else r) t)"

text \<open>
  \<^verbatim>\<open>Create\<close> runs \<^verbatim>\<open>BeforeCreate\<close> (a new \<^verbatim>\<open>ID\<close>), fills
  \<^verbatim>\<open>CreatedAt\<close> (left zero by both callers) and inserts the row; the primary key
  is unique, so an \<^verbatim>\<open>ID\<close> already in the table is an error of the statement.
\<close>

definition Create :: "world \<Rightarrow> RefreshToken \<Rightarrow> table \<Rightarrow> error + table" where
  "Create w v t =
     (let v' = v\<lparr>ID := new_uuid w, CreatedAt := now_created w\<rparr>
      in case create_err w of
           Some e \<Rightarrow> Inl e
         | None \<Rightarrow>
             if ID v' \<in> set (map ID t)
             then Inl (DBErr ''UNIQUE constraint failed: refresh_tokens.id'')
             else Inr (t @ [v']))"

section \<open>repositories.StoreRefreshToken and repositories.RotateRefreshToken\<close>

definition StoreRefreshToken :: "world \<Rightarrow> uuid \<Rightarrow> string \<Rightarrow> Time \<Rightarrow> table \<Rightarrow> error option \<times> table" where
  "StoreRefreshToken w userID token expiresAt t =
     (let refreshToken = \<lparr>ID = 0, UserID = userID, TokenHash = HashToken token,
                           IsRevoked = False, ExpiresAt = expiresAt, CreatedAt = 0\<rparr>
      in case Create w refreshToken t of
           Inl e \<Rightarrow> (Some e, t)
         | Inr t' \<Rightarrow> (None, t'))"

text \<open>
  The result is Go's triple of the two strings and the error, paired with the table the
  call leaves: the table it was given after \<^verbatim>\<open>Rollback\<close>, the table written in the
  transaction after \<^verbatim>\<open>Commit\<close>.
\<close>

definition RotateRefreshToken ::
  "world \<Rightarrow> string \<Rightarrow> table \<Rightarrow> (string \<times> string \<times> error option) \<times> table" where
  "RotateRefreshToken w oldTokenString t =
     (let hash = HashToken oldTokenString
      in case First t hash of
           Inl err \<Rightarrow> (('''', '''', Some err), t)
         | Inr dbToken \<Rightarrow>
             if IsRevoked dbToken
             then (('''', '''', Some (Errorf ''token reuse detected'')),
                   Update_by_user (update_err w) (UserID dbToken) t)
             else
               let tx1 = Save (save_err w) (dbToken\<lparr>IsRevoked := True\<rparr>) t;
                   (newAccessToken, err1) =
                      GenerateToken w (uuid_String (UserID dbToken)) (Add (now1 w) (15 * Minute))
               in if err1 \<noteq> None then (('''', '''', err1), t)
                  else
                    let (newRefreshToken, err2) =
                          GenerateToken w (uuid_String (UserID dbToken)) (Add (now2 w) (7 * 24 * Hour))
                    in if err2 \<noteq> None then (('''', '''', err2), t)
                       else
                         let newDbToken =
                               \<lparr>ID = 0, UserID = UserID dbToken,
                                TokenHash = HashToken newRefreshToken, IsRevoked = False,
                                ExpiresAt = Add (now3 w) (7 * 24 * Hour), CreatedAt = 0\<rparr>
                         in case Create w newDbToken tx1 of
                              Inl err \<Rightarrow> (('''', '''', Some err), t)
                            | Inr tx2 \<Rightarrow> ((newAccessToken, newRefreshToken, None), tx2))"

section \<open>handlers.Logout\<close>

text \<open>
  \<^verbatim>\<open>c.Cookies(key)\<close> is the value of the cookie, the empty string when the request
  has none. The response is the status, the JSON object sent and the cookies cleared;
  \<^verbatim>\<open>c.JSON\<close> of a map from a string to a string does not fail, so the error
  \<^verbatim>\<open>Logout\<close> returns is \<^verbatim>\<open>nil\<close>. The update runs outside any transaction,
  and its error is not looked at.
\<close>

type_synonym request = "string \<rightharpoonup> string"

record response =
  status :: nat
  body :: "(string \<times> string) list"
  cleared :: "string list"

definition Cookies :: "request \<Rightarrow> string \<Rightarrow> string" where
  "Cookies c key = (case c key of None \<Rightarrow> '''' | Some v \<Rightarrow> v)"

definition Logout :: "world \<Rightarrow> request \<Rightarrow> table \<Rightarrow> (error option \<times> response) \<times> table" where
  "Logout w c t =
     (let cookie = Cookies c ''refresh_token'';
          hash = HashToken cookie;
          t' = Update_by_hash (update_err w) hash t
      in ((None, \<lparr>status = 200, body = [(''message'', ''Logged out successfully'')],
                  cleared = [''refresh_token'']\<rparr>), t'))"

section \<open>Sequences of operations\<close>

text \<open>
  The operations that write the table: a rotation, a logout, the storing of a session at
  login, and the bulk update by owner as a statement of its own. Each carries the
  \<^typ>\<open>world\<close> of its call.
\<close>

datatype op =
    OpRotate world string
  | OpLogout world request
  | OpStore world uuid string Time
  | OpRevokeAll world uuid

fun step :: "op \<Rightarrow> table \<Rightarrow> table" where
  "step (OpRotate w token) t = snd (RotateRefreshToken w token t)"
| "step (OpLogout w c) t = snd (Logout w c t)"
| "step (OpStore w userID token expiresAt) t = snd (StoreRefreshToken w userID token expiresAt t)"
| "step (OpRevokeAll w userID) t = Update_by_user (update_err w) userID t"

definition run :: "op list \<Rightarrow> table \<Rightarrow> table" where
  "run ops t = fold step ops t"

text \<open>
  \<open>revoked_kept t t'\<close>: every row of \<open>t\<close> is still in \<open>t'\<close> at its place with its
  \<^verbatim>\<open>ID\<close>, and is revoked in \<open>t'\<close> if it was revoked in \<open>t\<close>.
\<close>

definition revoked_kept :: "table \<Rightarrow> table \<Rightarrow> bool" where
  "revoked_kept t t' \<longleftrightarrow>
     length t \<le> length t' \<and>
     list_all (\<lambda>(r, r'). ID r' = ID r \<and> (IsRevoked r \<longrightarrow> IsRevoked r')) (zip t t')"

text \<open>
  A signing function for the examples: the issuer and the expiry second, joined. Like
  HS256 under one key, it is a function of the claims alone.
\<close>

definition example_sign :: "string \<Rightarrow> MapClaims \<Rightarrow> string \<times> error option" where
  "example_sign key c =
     (claim_iss c @ ''.'' @ EncodeToString (be64_bytes (word_of_int (claim_exp c))), None)"

definition example_world :: world where
  "example_world =
     \<lparr>SignedString = example_sign, now1 = 0, now2 = 0, now3 = 0, now_created = 0,
      new_uuid = 9, update_err = None, save_err = None, create_err = None\<rparr>"

definition reuse_table :: table where
  "reuse_table =
     [\<lparr>ID = 1, UserID = 2, TokenHash = HashToken ''abc'', IsRevoked = True,
       ExpiresAt = 50, CreatedAt = 0\<rparr>,
      \<lparr>ID = 3, UserID = 2, TokenHash = HashToken ''a'', IsRevoked = False,
       ExpiresAt = 60, CreatedAt = 10\<rparr>,
      \<lparr>ID = 4, UserID = 5, TokenHash = HashToken '''', IsRevoked = False,
       ExpiresAt = 70, CreatedAt = 20\<rparr>]"

text \<open>
  An owner with two sessions that are not revoked: the first was issued at time 0 and
  expires after seven days, the second was issued on the sixth day.
\<close>

definition owner_table :: table where
  "owner_table =
     [\<lparr>ID = 1, UserID = 2, TokenHash = HashToken ''abc'', IsRevoked = False,
       ExpiresAt = 604800000000000, CreatedAt = 0\<rparr>,
      \<lparr>ID = 3, UserID = 2, TokenHash = HashToken ''a'', IsRevoked = False,
       ExpiresAt = 1123200000000000, CreatedAt = 518400000000000\<rparr>]"

text \<open>A call on the eighth day.\<close>

definition late_world :: world where
  "late_world =
     example_world\<lparr>now1 := 691200000000000, now2 := 691200000000000,
                    now3 := 691200000000000, now_created := 691200000000000\<rparr>"

text \<open>
  A login at time 0 and a refresh within the same second: the four clock readings of
  the refresh lie 0.4 to 0.7 seconds after the login.
\<close>

definition login_world :: world where
  "login_world = example_world\<lparr>new_uuid := 1\<rparr>"

definition refresh_world :: world where
  "refresh_world =
     example_world\<lparr>now1 := 400000000, now2 := 500000000, now3 := 600000000,
                    now_created := 700000000\<rparr>"

definition login_token :: string where
  "login_token = ''00000000-0000-0000-0000-000000000002.0000000000093a80''"

section \<open>The hasher: length and alphabet of the digest\<close>

lemma length_EncodeToString: "length (EncodeToString bs) = 2 * length bs"
  by (induction bs) (simp_all add: EncodeToString_def)

lemma length_Sum256: "length (Sum256 m) = 32"
proof -
  have "length (state_bytes s) = 32" for s
    by (cases s rule: state_bytes.cases) (simp add: be32_bytes_def)
  then show ?thesis
    by (simp add: Sum256_def)
qed

lemma hi_nibble_less: "unat (drop_bit 4 (v :: byte)) < 16"
proof -
  have "unat v < 256"
    using unsigned_less [of v] by simp
  then show ?thesis
    by (simp add: unat_drop_bit_eq drop_bit_eq_div unat_div less_mult_imp_div_less)
qed

lemma lo_nibble_less: "unat ((v :: byte) AND 0x0f) < 16"
proof -
  have "unat (v AND 15) \<le> unat (15 :: byte)"
    by (rule word_and_le1 [THEN word_le_nat_alt [THEN iffD1]])
  then show ?thesis by simp
qed

lemma hextable_nth_mem: "n < 16 \<Longrightarrow> hextable ! n \<in> set hextable"
  by (rule nth_mem) (simp add: hextable_def)

lemma set_EncodeToString: "set (EncodeToString bs) \<subseteq> set hextable"
  by (induction bs) (simp_all add: EncodeToString_def hextable_nth_mem hi_nibble_less lo_nibble_less)

text \<open>
  Claim C10. \<^verbatim>\<open>HashToken\<close> is a total function of its input (it is defined by
  terminating recursion, and as a function it gives equal digests for equal inputs): for
  every string, the empty one included, the digest is the hexadecimal form of the SHA-256
  of the input's bytes, it is 64 characters long, and each character is one of
  \<open>0123456789abcdef\<close>.
\<close>

theorem HashToken_digest:
  "HashToken token = EncodeToString (Sum256 (string_bytes token)) \<and>
   length (HashToken token) = 64 \<and>
   (\<forall>c \<in> set (HashToken token). c \<in> set ''0123456789abcdef'')"
proof (intro conjI ballI)
  show "HashToken token = EncodeToString (Sum256 (string_bytes token))"
    by (simp add: HashToken_def)
  show "length (HashToken token) = 64"
    by (simp add: HashToken_def length_EncodeToString length_Sum256)
  fix c
  assume "c \<in> set (HashToken token)"
  then have "c \<in> set hextable"
    using set_EncodeToString [of "Sum256 (string_bytes token)"]
    unfolding HashToken_def by blast
  then show "c \<in> set ''0123456789abcdef''"
    unfolding hextable_def .
qed

text \<open>The function on the test vectors of the standard: the empty string and \<open>abc\<close>.\<close>

lemma HashToken_empty: "HashToken '''' = ''e3b0c44298fc1c149afbf4c8996fb92427ae41e4649b934ca495991b7852b855''"
  by code_simp

text \<open>The digests of the tokens the examples use.\<close>

lemma HashToken_abc:
  "HashToken ''abc'' = ''ba7816bf8f01cfea414140de5dae2223b00361a396177a9cb410ff61f20015ad''"
  by code_simp

lemma HashToken_a:
  "HashToken ''a'' = ''ca978112ca1bbdcafac231b39a23dc4da786eff8147c4e72b9807785afee48bb''"
  by code_simp

lemma HashToken_examples_differ:
  "HashToken ''abc'' \<noteq> HashToken ''a''" "HashToken ''a'' \<noteq> HashToken ''abc''"
  "HashToken ''abc'' \<noteq> HashToken ''''" "HashToken '''' \<noteq> HashToken ''abc''"
  "HashToken ''a'' \<noteq> HashToken ''''" "HashToken '''' \<noteq> HashToken ''a''"
  by (simp_all add: HashToken_abc HashToken_a HashToken_empty)

theorem HashToken_digest_witness:
  "HashToken ''abc'' = ''ba7816bf8f01cfea414140de5dae2223b00361a396177a9cb410ff61f20015ad'' \<and>
   length (HashToken ''abc'') = 64 \<and>
   set (HashToken ''abc'') \<subseteq> set ''0123456789abcdef''"
  using HashToken_digest [of "''abc''"] HashToken_abc by blast

section \<open>The query and the three paths of a rotation\<close>

lemma least_ID_None: "least_ID rs = None \<longleftrightarrow> rs = []"
  by (induction rs) (auto split: option.splits)

lemma least_ID_mem: "least_ID rs = Some r \<Longrightarrow> r \<in> set rs"
  by (induction rs arbitrary: r) (auto split: option.splits if_splits)

lemma First_Inr_D: "First t h = Inr d \<Longrightarrow> d \<in> set t \<and> TokenHash d = h"
  by (auto simp: First_def split: option.splits dest: least_ID_mem)

lemma First_no_match: "\<forall>r \<in> set t. TokenHash r \<noteq> h \<Longrightarrow> First t h = Inl ErrRecordNotFound"
proof -
  assume "\<forall>r \<in> set t. TokenHash r \<noteq> h"
  then have "filter (\<lambda>r. TokenHash r = h) t = []"
    by (simp add: filter_empty_conv)
  then show ?thesis
    by (simp add: First_def)
qed

lemma rotate_not_found:
  "First t (HashToken tok) = Inl e \<Longrightarrow> RotateRefreshToken w tok t = (('''', '''', Some e), t)"
  by (simp add: RotateRefreshToken_def)

lemma rotate_revoked:
  "First t (HashToken tok) = Inr d \<Longrightarrow> IsRevoked d \<Longrightarrow>
   RotateRefreshToken w tok t =
     (('''', '''', Some (Errorf ''token reuse detected'')), Update_by_user (update_err w) (UserID d) t)"
  by (simp add: RotateRefreshToken_def)

lemma rotate_active:
  "First t (HashToken tok) = Inr d \<Longrightarrow> \<not> IsRevoked d \<Longrightarrow>
   GenerateToken w (uuid_String (UserID d)) (Add (now1 w) (15 * Minute)) = (acc, e1) \<Longrightarrow>
   GenerateToken w (uuid_String (UserID d)) (Add (now2 w) (7 * 24 * Hour)) = (ref, e2) \<Longrightarrow>
   RotateRefreshToken w tok t =
     (if e1 \<noteq> None then (('''', '''', e1), t)
      else if e2 \<noteq> None then (('''', '''', e2), t)
      else case Create w \<lparr>ID = 0, UserID = UserID d, TokenHash = HashToken ref, IsRevoked = False,
                           ExpiresAt = Add (now3 w) (7 * 24 * Hour), CreatedAt = 0\<rparr>
                  (Save (save_err w) (d\<lparr>IsRevoked := True\<rparr>) t) of
             Inl err \<Rightarrow> (('''', '''', Some err), t)
           | Inr tx2 \<Rightarrow> ((acc, ref, None), tx2))"
  by (simp add: RotateRefreshToken_def)

section \<open>Rotation: unknown token\<close>

text \<open>
  Claim C6. When the hash of the presented token is the \<^verbatim>\<open>TokenHash\<close> of no row,
  \<^verbatim>\<open>RotateRefreshToken\<close> returns two empty strings and the error of the query,
  \<^verbatim>\<open>ErrRecordNotFound\<close> (the spec's InvalidSessionError), and the table is the one
  it was given: no row revoked, none created.
\<close>

theorem rotate_unknown_token:
  "\<forall>r \<in> set t. TokenHash r \<noteq> HashToken tok \<Longrightarrow>
   RotateRefreshToken w tok t = (('''', '''', Some ErrRecordNotFound), t)"
  by (simp add: First_no_match rotate_not_found)

theorem rotate_unknown_token_witness:
  "HashToken ''a'' \<noteq> HashToken ''abc'' \<and>
   RotateRefreshToken example_world ''abc''
     [\<lparr>ID = 1, UserID = 2, TokenHash = HashToken ''a'', IsRevoked = False,
       ExpiresAt = 5, CreatedAt = 0\<rparr>]
   = (('''', '''', Some ErrRecordNotFound),
      [\<lparr>ID = 1, UserID = 2, TokenHash = HashToken ''a'', IsRevoked = False,
        ExpiresAt = 5, CreatedAt = 0\<rparr>])"
proof -
  have h: "\<forall>r \<in> set [\<lparr>ID = 1, UserID = 2, TokenHash = HashToken ''a'', IsRevoked = False,
                  ExpiresAt = 5, CreatedAt = 0\<rparr>]. TokenHash r \<noteq> HashToken ''abc''"
    using HashToken_examples_differ by simp
  from HashToken_examples_differ(2) rotate_unknown_token [OF h, of example_world] show ?thesis
    by (rule conjI)
qed

section \<open>Rotation: a revoked token is presented again\<close>

text \<open>
  Claim C2. When the query finds a row that is already revoked and the bulk update
  executes, \<^verbatim>\<open>RotateRefreshToken\<close> returns two empty strings and the error
  \<open>token reuse detected\<close> (the spec's ReuseDetectedError), and the table it leaves is the
  given one with \<^verbatim>\<open>IsRevoked\<close> set in every row of the owner of the row found: every
  row of that owner is revoked, so is whatever row of that owner a later query by hash
  finds, and the rows are the same ones as before (same identifiers, owners and hashes in
  the same order: no session is created).
\<close>

theorem rotate_reuse_revokes_owner:
  assumes "First t (HashToken tok) = Inr d" and "IsRevoked d" and "update_err w = None"
  shows "fst (RotateRefreshToken w tok t) = ('''', '''', Some (Errorf ''token reuse detected'')) \<and>
         snd (RotateRefreshToken w tok t) =
           map (\<lambda>r. if UserID r = UserID d then r\<lparr>IsRevoked := True\<rparr> else r) t \<and>
         (\<forall>r \<in> set (snd (RotateRefreshToken w tok t)). UserID r = UserID d \<longrightarrow> IsRevoked r) \<and>
         (\<forall>h r. First (snd (RotateRefreshToken w tok t)) h = Inr r \<longrightarrow> UserID r = UserID d
                 \<longrightarrow> IsRevoked r) \<and>
         map ID (snd (RotateRefreshToken w tok t)) = map ID t \<and>
         map UserID (snd (RotateRefreshToken w tok t)) = map UserID t \<and>
         map TokenHash (snd (RotateRefreshToken w tok t)) = map TokenHash t"
proof -
  let ?t' = "map (\<lambda>r. if UserID r = UserID d then r\<lparr>IsRevoked := True\<rparr> else r) t"
  have eq: "RotateRefreshToken w tok t = (('''', '''', Some (Errorf ''token reuse detected'')), ?t')"
    using assms by (simp add: rotate_revoked Update_by_user_def)
  have all: "\<forall>r \<in> set ?t'. UserID r = UserID d \<longrightarrow> IsRevoked r"
    by auto
  have look: "\<forall>h r. First ?t' h = Inr r \<longrightarrow> UserID r = UserID d \<longrightarrow> IsRevoked r"
    using all First_Inr_D by blast
  have ids: "map ID ?t' = map ID t"
    by (induction t) simp_all
  have users: "map UserID ?t' = map UserID t"
    by (induction t) simp_all
  have hashes: "map TokenHash ?t' = map TokenHash t"
    by (induction t) simp_all
  show ?thesis
    unfolding eq fst_conv snd_conv
    using all look ids users hashes by (intro conjI) (rule refl | assumption)+
qed

text \<open>
  An owner with two sessions, the first already rotated away, and a session of another
  owner: presenting the first token again revokes the owner's second session and leaves
  the other owner's session as it was.
\<close>

lemma First_reuse_table:
  "First reuse_table (HashToken ''abc'') =
     Inr \<lparr>ID = 1, UserID = 2, TokenHash = HashToken ''abc'', IsRevoked = True,
          ExpiresAt = 50, CreatedAt = 0\<rparr>"
  by (simp add: First_def reuse_table_def HashToken_examples_differ)

theorem rotate_reuse_revokes_owner_witness:
  "First reuse_table (HashToken ''abc'') =
     Inr \<lparr>ID = 1, UserID = 2, TokenHash = HashToken ''abc'', IsRevoked = True,
          ExpiresAt = 50, CreatedAt = 0\<rparr> \<and>
   update_err example_world = None \<and>
   RotateRefreshToken example_world ''abc'' reuse_table =
     (('''', '''', Some (Errorf ''token reuse detected'')),
      [\<lparr>ID = 1, UserID = 2, TokenHash = HashToken ''abc'', IsRevoked = True,
        ExpiresAt = 50, CreatedAt = 0\<rparr>,
       \<lparr>ID = 3, UserID = 2, TokenHash = HashToken ''a'', IsRevoked = True,
        ExpiresAt = 60, CreatedAt = 10\<rparr>,
       \<lparr>ID = 4, UserID = 5, TokenHash = HashToken '''', IsRevoked = False,
        ExpiresAt = 70, CreatedAt = 20\<rparr>])"
proof -
  have u: "update_err example_world = None"
    by (simp add: example_world_def)
  have r: "IsRevoked \<lparr>ID = 1, UserID = 2, TokenHash = HashToken ''abc'', IsRevoked = True,
          ExpiresAt = 50, CreatedAt = 0\<rparr>"
    by simp
  note th = rotate_reuse_revokes_owner [OF First_reuse_table r u]
  from th have f: "fst (RotateRefreshToken example_world ''abc'' reuse_table) =
      ('''', '''', Some (Errorf ''token reuse detected''))"
    by (rule conjunct1)
  from th have "snd (RotateRefreshToken example_world ''abc'' reuse_table) =
      map (\<lambda>r. if UserID r = 2 then r\<lparr>IsRevoked := True\<rparr> else r) reuse_table"
    by simp
  then have s: "snd (RotateRefreshToken example_world ''abc'' reuse_table) =
      [\<lparr>ID = 1, UserID = 2, TokenHash = HashToken ''abc'', IsRevoked = True,
        ExpiresAt = 50, CreatedAt = 0\<rparr>,
       \<lparr>ID = 3, UserID = 2, TokenHash = HashToken ''a'', IsRevoked = True,
        ExpiresAt = 60, CreatedAt = 10\<rparr>,
       \<lparr>ID = 4, UserID = 5, TokenHash = HashToken '''', IsRevoked = False,
        ExpiresAt = 70, CreatedAt = 20\<rparr>]"
    by (simp add: reuse_table_def)
  from f s have "RotateRefreshToken example_world ''abc'' reuse_table =
     (('''', '''', Some (Errorf ''token reuse detected'')),
      [\<lparr>ID = 1, UserID = 2, TokenHash = HashToken ''abc'', IsRevoked = True,
        ExpiresAt = 50, CreatedAt = 0\<rparr>,
       \<lparr>ID = 3, UserID = 2, TokenHash = HashToken ''a'', IsRevoked = True,
        ExpiresAt = 60, CreatedAt = 10\<rparr>,
       \<lparr>ID = 4, UserID = 5, TokenHash = HashToken '''', IsRevoked = False,
        ExpiresAt = 70, CreatedAt = 20\<rparr>])"
    by (simp add: prod_eq_iff)
  with First_reuse_table u show ?thesis
    by (intro conjI)
qed

section \<open>Rotation: a failure after the presented row was written\<close>

text \<open>
  Claim C4. When the query finds a row that is not revoked and the signing of the access
  token, the signing of the refresh token or the insert of the new row fails,
  \<^verbatim>\<open>RotateRefreshToken\<close> returns two empty strings and an error, and
  \<^verbatim>\<open>Rollback\<close> leaves the table it was given: the row found is still not revoked
  and no row was added.
\<close>

theorem rotate_failure_leaves_store:
  assumes "First t (HashToken tok) = Inr d" and "\<not> IsRevoked d"
    and "snd (GenerateToken w (uuid_String (UserID d)) (Add (now1 w) (15 * Minute))) \<noteq> None
         \<or> snd (GenerateToken w (uuid_String (UserID d)) (Add (now2 w) (7 * 24 * Hour))) \<noteq> None
         \<or> create_err w \<noteq> None"
  shows "\<exists>e. RotateRefreshToken w tok t = (('''', '''', Some e), t)"
proof -
  obtain acc e1 where g1: "GenerateToken w (uuid_String (UserID d)) (Add (now1 w) (15 * Minute)) = (acc, e1)"
    by (cases "GenerateToken w (uuid_String (UserID d)) (Add (now1 w) (15 * Minute))")
  obtain ref e2 where g2: "GenerateToken w (uuid_String (UserID d)) (Add (now2 w) (7 * 24 * Hour)) = (ref, e2)"
    by (cases "GenerateToken w (uuid_String (UserID d)) (Add (now2 w) (7 * 24 * Hour))")
  note r = rotate_active [OF assms(1,2) g1 g2]
  show ?thesis
  proof (cases "e1 \<noteq> None \<or> e2 \<noteq> None")
    case True
    then show ?thesis
      using r by auto
  next
    case False
    with assms(3) g1 g2 obtain e where "create_err w = Some e"
      by auto
    with False show ?thesis
      using r by (simp add: Create_def)
  qed
qed

lemma First_owner_table:
  "First owner_table (HashToken ''abc'') =
     Inr \<lparr>ID = 1, UserID = 2, TokenHash = HashToken ''abc'', IsRevoked = False,
          ExpiresAt = 604800000000000, CreatedAt = 0\<rparr>"
  by (simp add: First_def owner_table_def HashToken_examples_differ)

theorem rotate_failure_leaves_store_witness:
  "First owner_table (HashToken ''abc'') =
     Inr \<lparr>ID = 1, UserID = 2, TokenHash = HashToken ''abc'', IsRevoked = False,
          ExpiresAt = 604800000000000, CreatedAt = 0\<rparr> \<and>
   create_err (late_world\<lparr>create_err := Some (DBErr ''database is locked'')\<rparr>) \<noteq> None \<and>
   (\<exists>e. RotateRefreshToken (late_world\<lparr>create_err := Some (DBErr ''database is locked'')\<rparr>)
          ''abc'' owner_table = (('''', '''', Some e), owner_table))"
proof -
  let ?w = "late_world\<lparr>create_err := Some (DBErr ''database is locked'')\<rparr>"
  let ?d = "\<lparr>ID = 1, UserID = 2, TokenHash = HashToken ''abc'', IsRevoked = False,
          ExpiresAt = 604800000000000, CreatedAt = 0\<rparr>"
  have c: "create_err ?w \<noteq> None"
    by simp
  have n: "\<not> IsRevoked ?d"
    by simp
  from c have h: "snd (GenerateToken ?w (uuid_String (UserID ?d)) (Add (now1 ?w) (15 * Minute))) \<noteq> None
         \<or> snd (GenerateToken ?w (uuid_String (UserID ?d)) (Add (now2 ?w) (7 * 24 * Hour))) \<noteq> None
         \<or> create_err ?w \<noteq> None"
    by (intro disjI2)
  from First_owner_table c rotate_failure_leaves_store [OF First_owner_table n h]
  show ?thesis
    by (intro conjI)
qed

section \<open>Rotation: the bulk update fails\<close>

lemma rotate_revoked_update_fails:
  "First t (HashToken tok) = Inr d \<Longrightarrow> IsRevoked d \<Longrightarrow> update_err w = Some e \<Longrightarrow>
   RotateRefreshToken w tok t = (('''', '''', Some (Errorf ''token reuse detected'')), t)"
  by (simp add: rotate_revoked Update_by_user_def)

text \<open>
  Claim C3, on the code. The error of the bulk update is not looked at: when the
  statement fails, \<^verbatim>\<open>RotateRefreshToken\<close> commits and returns
  \<open>token reuse detected\<close> all the same. In the example the owner's second session is
  still not revoked after the call, and the error returned is the one of a completed
  reuse response.
\<close>

theorem rotate_reuse_update_fails:
  "RotateRefreshToken (example_world\<lparr>update_err := Some (DBErr ''database is locked'')\<rparr>)
     ''abc'' reuse_table
   = (('''', '''', Some (Errorf ''token reuse detected'')), reuse_table) \<and>
   UserID (reuse_table ! 1) = UserID (reuse_table ! 0) \<and> \<not> IsRevoked (reuse_table ! 1)"
proof -
  have u: "update_err (example_world\<lparr>update_err := Some (DBErr ''database is locked'')\<rparr>)
           = Some (DBErr ''database is locked'')"
    by simp
  have r: "IsRevoked \<lparr>ID = 1, UserID = 2, TokenHash = HashToken ''abc'', IsRevoked = True,
          ExpiresAt = 50, CreatedAt = 0\<rparr>"
    by simp
  have "UserID (reuse_table ! 1) = UserID (reuse_table ! 0)" "\<not> IsRevoked (reuse_table ! 1)"
    by (simp_all add: reuse_table_def)
  with rotate_revoked_update_fails [OF First_reuse_table r u] show ?thesis
    by (intro conjI)
qed

section \<open>Rotation: a row that is not revoked\<close>

lemma Save_ids: "map ID (Save err (d\<lparr>IsRevoked := True\<rparr>) t) = map ID t"
  by (cases err) (simp_all add: Save_def)

lemma rotate_active_success:
  assumes "First t (HashToken tok) = Inr d" and "\<not> IsRevoked d"
    and "GenerateToken w (uuid_String (UserID d)) (Add (now1 w) (15 * Minute)) = (acc, None)"
    and "GenerateToken w (uuid_String (UserID d)) (Add (now2 w) (7 * 24 * Hour)) = (ref, None)"
    and "save_err w = None" and "create_err w = None" and "new_uuid w \<notin> set (map ID t)"
  shows "RotateRefreshToken w tok t =
           ((acc, ref, None),
            map (\<lambda>r. if ID r = ID d then d\<lparr>IsRevoked := True\<rparr> else r) t
            @ [\<lparr>ID = new_uuid w, UserID = UserID d, TokenHash = HashToken ref, IsRevoked = False,
                ExpiresAt = Add (now3 w) (7 * 24 * Hour), CreatedAt = now_created w\<rparr>])"
proof -
  have s: "Save (save_err w) (d\<lparr>IsRevoked := True\<rparr>) t =
           map (\<lambda>r. if ID r = ID d then d\<lparr>IsRevoked := True\<rparr> else r) t"
    using assms(5) by (simp add: Save_def)
  have "new_uuid w \<notin> set (map ID (Save (save_err w) (d\<lparr>IsRevoked := True\<rparr>) t))"
    using assms(7) by (simp add: Save_ids)
  then have c: "Create w \<lparr>ID = 0, UserID = UserID d, TokenHash = HashToken ref, IsRevoked = False,
                          ExpiresAt = Add (now3 w) (7 * 24 * Hour), CreatedAt = 0\<rparr>
                  (Save (save_err w) (d\<lparr>IsRevoked := True\<rparr>) t) =
           Inr (Save (save_err w) (d\<lparr>IsRevoked := True\<rparr>) t
                @ [\<lparr>ID = new_uuid w, UserID = UserID d, TokenHash = HashToken ref,
                    IsRevoked = False, ExpiresAt = Add (now3 w) (7 * 24 * Hour),
                    CreatedAt = now_created w\<rparr>])"
    using assms(6) by (simp add: Create_def)
  from c show ?thesis
    by (simp add: rotate_active [OF assms(1-4)] s)
qed

lemma Save_other_rows:
  "i < length t \<Longrightarrow> ID (t ! i) \<noteq> ID d \<Longrightarrow> Save err (d\<lparr>IsRevoked := True\<rparr>) t ! i = t ! i"
  by (cases err) (simp_all add: Save_def)

lemma Create_Inr_D: "Create w v t = Inr t' \<Longrightarrow> \<exists>v'. t' = t @ [v']"
  by (auto simp: Create_def Let_def split: option.splits if_splits)

lemma rotate_active_table:
  assumes "First t (HashToken tok) = Inr d" and "\<not> IsRevoked d"
  shows "snd (RotateRefreshToken w tok t) = t
         \<or> (\<exists>v. snd (RotateRefreshToken w tok t) = Save (save_err w) (d\<lparr>IsRevoked := True\<rparr>) t @ [v])"
proof -
  obtain acc e1 where g1: "GenerateToken w (uuid_String (UserID d)) (Add (now1 w) (15 * Minute)) = (acc, e1)"
    by (cases "GenerateToken w (uuid_String (UserID d)) (Add (now1 w) (15 * Minute))")
  obtain ref e2 where g2: "GenerateToken w (uuid_String (UserID d)) (Add (now2 w) (7 * 24 * Hour)) = (ref, e2)"
    by (cases "GenerateToken w (uuid_String (UserID d)) (Add (now2 w) (7 * 24 * Hour))")
  let ?v = "\<lparr>ID = 0, UserID = UserID d, TokenHash = HashToken ref, IsRevoked = False,
             ExpiresAt = Add (now3 w) (7 * 24 * Hour), CreatedAt = 0\<rparr>"
  let ?tx1 = "Save (save_err w) (d\<lparr>IsRevoked := True\<rparr>) t"
  note r = rotate_active [OF assms g1 g2]
  show ?thesis
  proof (cases "Create w ?v ?tx1")
    case (Inl e)
    with r show ?thesis
      by simp
  next
    case (Inr tx2)
    then obtain v' where "tx2 = ?tx1 @ [v']"
      using Create_Inr_D by blast
    with r Inr show ?thesis
      by simp
  qed
qed

lemma rotate_active_other_rows:
  assumes "First t (HashToken tok) = Inr d" and "\<not> IsRevoked d"
    and "i < length t" and "ID (t ! i) \<noteq> ID d"
  shows "snd (RotateRefreshToken w tok t) ! i = t ! i"
proof -
  have l: "length (Save (save_err w) (d\<lparr>IsRevoked := True\<rparr>) t) = length t"
    by (cases "save_err w") (simp_all add: Save_def)
  from rotate_active_table [OF assms(1,2), of w] show ?thesis
  proof
    assume "snd (RotateRefreshToken w tok t) = t"
    then show ?thesis
      by simp
  next
    assume "\<exists>v. snd (RotateRefreshToken w tok t) = Save (save_err w) (d\<lparr>IsRevoked := True\<rparr>) t @ [v]"
    then obtain v where "snd (RotateRefreshToken w tok t) = Save (save_err w) (d\<lparr>IsRevoked := True\<rparr>) t @ [v]"
      by blast
    then show ?thesis
      using assms(3,4) l by (simp add: nth_append Save_other_rows)
  qed
qed

lemma example_tokens:
  "GenerateToken late_world (uuid_String 2) (Add (now1 late_world) (15 * Minute)) =
     (''00000000-0000-0000-0000-000000000002.00000000000a8f84'', None)"
  "GenerateToken late_world (uuid_String 2) (Add (now2 late_world) (7 * 24 * Hour)) =
     (''00000000-0000-0000-0000-000000000002.000000000013c680'', None)"
  "GenerateToken login_world (uuid_String 2) (Add 0 (7 * 24 * Hour)) = (login_token, None)"
  "GenerateToken refresh_world (uuid_String 2) (Add (now1 refresh_world) (15 * Minute)) =
     (''00000000-0000-0000-0000-000000000002.0000000000000384'', None)"
  "GenerateToken refresh_world (uuid_String 2) (Add (now2 refresh_world) (7 * 24 * Hour)) =
     (login_token, None)"
  by code_simp+

section \<open>Rotation: a session past its expiry\<close>

text \<open>
  Claim C1 as stated fails on the code: \<^verbatim>\<open>RotateRefreshToken\<close> never reads
  \<^verbatim>\<open>ExpiresAt\<close>. On the eighth day, the token of a session that expired on the
  seventh is rotated like any other: the call returns two new tokens and no error, and
  the presented row is revoked.
\<close>

theorem rotate_expired_counterexample:
  "ExpiresAt (owner_table ! 0) < now1 late_world \<and>
   \<not> IsRevoked (owner_table ! 0) \<and>
   TokenHash (owner_table ! 0) = HashToken ''abc'' \<and>
   RotateRefreshToken late_world ''abc'' owner_table =
     ((''00000000-0000-0000-0000-000000000002.00000000000a8f84'',
       ''00000000-0000-0000-0000-000000000002.000000000013c680'', None),
      [\<lparr>ID = 1, UserID = 2, TokenHash = HashToken ''abc'', IsRevoked = True,
        ExpiresAt = 604800000000000, CreatedAt = 0\<rparr>,
       \<lparr>ID = 3, UserID = 2, TokenHash = HashToken ''a'', IsRevoked = False,
        ExpiresAt = 1123200000000000, CreatedAt = 518400000000000\<rparr>,
       \<lparr>ID = 9, UserID = 2,
        TokenHash = HashToken ''00000000-0000-0000-0000-000000000002.000000000013c680'',
        IsRevoked = False, ExpiresAt = 1296000000000000, CreatedAt = 691200000000000\<rparr>])"
proof -
  let ?d = "\<lparr>ID = 1, UserID = 2, TokenHash = HashToken ''abc'', IsRevoked = False,
             ExpiresAt = 604800000000000, CreatedAt = 0\<rparr>"
  have n: "\<not> IsRevoked ?d"
    by simp
  have g1: "GenerateToken late_world (uuid_String (UserID ?d)) (Add (now1 late_world) (15 * Minute)) =
     (''00000000-0000-0000-0000-000000000002.00000000000a8f84'', None)"
    using example_tokens(1) by simp
  have g2: "GenerateToken late_world (uuid_String (UserID ?d)) (Add (now2 late_world) (7 * 24 * Hour)) =
     (''00000000-0000-0000-0000-000000000002.000000000013c680'', None)"
    using example_tokens(2) by simp
  have f: "save_err late_world = None" "create_err late_world = None"
    "new_uuid late_world \<notin> set (map ID owner_table)"
    by (simp_all add: late_world_def example_world_def owner_table_def)
  have e: "ExpiresAt (owner_table ! 0) < now1 late_world" "\<not> IsRevoked (owner_table ! 0)"
    "TokenHash (owner_table ! 0) = HashToken ''abc''"
    by (simp_all add: late_world_def example_world_def owner_table_def)
  have "RotateRefreshToken late_world ''abc'' owner_table =
     ((''00000000-0000-0000-0000-000000000002.00000000000a8f84'',
       ''00000000-0000-0000-0000-000000000002.000000000013c680'', None),
      [\<lparr>ID = 1, UserID = 2, TokenHash = HashToken ''abc'', IsRevoked = True,
        ExpiresAt = 604800000000000, CreatedAt = 0\<rparr>,
       \<lparr>ID = 3, UserID = 2, TokenHash = HashToken ''a'', IsRevoked = False,
        ExpiresAt = 1123200000000000, CreatedAt = 518400000000000\<rparr>,
       \<lparr>ID = 9, UserID = 2,
        TokenHash = HashToken ''00000000-0000-0000-0000-000000000002.000000000013c680'',
        IsRevoked = False, ExpiresAt = 1296000000000000, CreatedAt = 691200000000000\<rparr>])"
    unfolding rotate_active_success [OF First_owner_table n g1 g2 f]
    by (simp add: owner_table_def late_world_def example_world_def Add_def Hour_def Minute_def Second_def)
  with e show ?thesis
    by (intro conjI)
qed

text \<open>
  Claim C1, amended. When the query finds a row that is not revoked and whose
  \<^verbatim>\<open>ExpiresAt\<close> lies before the clock reading of the call,
  \<^verbatim>\<open>RotateRefreshToken\<close> goes on as for any row that is not revoked: if both tokens
  are signed, the two writes execute and the new identifier is not in the table, it
  returns the two new tokens and no error, the presented row is revoked and the new row
  is added. Whatever happens, every row with another \<^verbatim>\<open>ID\<close> than the row found
  is left as it was: no other session of the owner is revoked.
\<close>

theorem rotate_expired_session:
  assumes "First t (HashToken tok) = Inr d" and "\<not> IsRevoked d" and "ExpiresAt d < now1 w"
  shows "(\<forall>i < length t. ID (t ! i) \<noteq> ID d \<longrightarrow> snd (RotateRefreshToken w tok t) ! i = t ! i) \<and>
         (\<forall>acc ref.
            GenerateToken w (uuid_String (UserID d)) (Add (now1 w) (15 * Minute)) = (acc, None) \<and>
            GenerateToken w (uuid_String (UserID d)) (Add (now2 w) (7 * 24 * Hour)) = (ref, None) \<and>
            save_err w = None \<and> create_err w = None \<and> new_uuid w \<notin> set (map ID t) \<longrightarrow>
            RotateRefreshToken w tok t =
              ((acc, ref, None),
               map (\<lambda>r. if ID r = ID d then d\<lparr>IsRevoked := True\<rparr> else r) t
               @ [\<lparr>ID = new_uuid w, UserID = UserID d, TokenHash = HashToken ref,
                   IsRevoked = False, ExpiresAt = Add (now3 w) (7 * 24 * Hour),
                   CreatedAt = now_created w\<rparr>]))"
proof (intro conjI allI impI)
  fix i
  assume "i < length t" and "ID (t ! i) \<noteq> ID d"
  then show "snd (RotateRefreshToken w tok t) ! i = t ! i"
    using assms(1,2) by (rule rotate_active_other_rows [rotated 2])
next
  fix acc ref
  assume a: "GenerateToken w (uuid_String (UserID d)) (Add (now1 w) (15 * Minute)) = (acc, None) \<and>
            GenerateToken w (uuid_String (UserID d)) (Add (now2 w) (7 * 24 * Hour)) = (ref, None) \<and>
            save_err w = None \<and> create_err w = None \<and> new_uuid w \<notin> set (map ID t)"
  show "RotateRefreshToken w tok t =
              ((acc, ref, None),
               map (\<lambda>r. if ID r = ID d then d\<lparr>IsRevoked := True\<rparr> else r) t
               @ [\<lparr>ID = new_uuid w, UserID = UserID d, TokenHash = HashToken ref,
                   IsRevoked = False, ExpiresAt = Add (now3 w) (7 * 24 * Hour),
                   CreatedAt = now_created w\<rparr>])"
    using assms(1,2) a by (intro rotate_active_success) simp_all
qed

theorem rotate_expired_session_witness:
  "First owner_table (HashToken ''abc'') =
     Inr \<lparr>ID = 1, UserID = 2, TokenHash = HashToken ''abc'', IsRevoked = False,
          ExpiresAt = 604800000000000, CreatedAt = 0\<rparr> \<and>
   (604800000000000 :: int) < now1 late_world \<and>
   snd (RotateRefreshToken late_world ''abc'' owner_table) ! 1 = owner_table ! 1 \<and>
   fst (RotateRefreshToken late_world ''abc'' owner_table) =
     (''00000000-0000-0000-0000-000000000002.00000000000a8f84'',
      ''00000000-0000-0000-0000-000000000002.000000000013c680'', None)"
proof -
  let ?d = "\<lparr>ID = 1, UserID = 2, TokenHash = HashToken ''abc'', IsRevoked = False,
             ExpiresAt = 604800000000000, CreatedAt = 0\<rparr>"
  have n: "\<not> IsRevoked ?d"
    by simp
  have x: "ExpiresAt ?d < now1 late_world"
    by (simp add: late_world_def example_world_def)
  note th = rotate_expired_session [OF First_owner_table n x]
  have i: "1 < length owner_table" "ID (owner_table ! 1) \<noteq> ID ?d"
    by (simp_all add: owner_table_def)
  have o: "snd (RotateRefreshToken late_world ''abc'' owner_table) ! 1 = owner_table ! 1"
    by (rule th [THEN conjunct1, rule_format, OF i])
  have g: "GenerateToken late_world (uuid_String (UserID ?d)) (Add (now1 late_world) (15 * Minute)) =
     (''00000000-0000-0000-0000-000000000002.00000000000a8f84'', None)"
     "GenerateToken late_world (uuid_String (UserID ?d)) (Add (now2 late_world) (7 * 24 * Hour)) =
     (''00000000-0000-0000-0000-000000000002.000000000013c680'', None)"
    using example_tokens(1,2) by simp_all
  have f: "save_err late_world = None" "create_err late_world = None"
    "new_uuid late_world \<notin> set (map ID owner_table)"
    by (simp_all add: late_world_def example_world_def owner_table_def)
  have hyp: "GenerateToken late_world (uuid_String (UserID ?d)) (Add (now1 late_world) (15 * Minute)) =
       (''00000000-0000-0000-0000-000000000002.00000000000a8f84'', None) \<and>
     GenerateToken late_world (uuid_String (UserID ?d)) (Add (now2 late_world) (7 * 24 * Hour)) =
       (''00000000-0000-0000-0000-000000000002.000000000013c680'', None) \<and>
     save_err late_world = None \<and> create_err late_world = None \<and>
     new_uuid late_world \<notin> set (map ID owner_table)"
    by (intro conjI g f)
  have "fst (RotateRefreshToken late_world ''abc'' owner_table) =
     (''00000000-0000-0000-0000-000000000002.00000000000a8f84'',
      ''00000000-0000-0000-0000-000000000002.000000000013c680'', None)"
    unfolding th [THEN conjunct2, rule_format, OF hyp] by (rule fst_conv)
  moreover have "(604800000000000 :: int) < now1 late_world"
    using x by simp
  ultimately show ?thesis
    using First_owner_table o by (intro conjI)
qed

section \<open>Rotation within the second of the issue\<close>

text \<open>
  Whatever the signing function: two calls with the same issuer whose expiry times lie
  in the same second sign the same claims, and so return the same token.
\<close>

lemma GenerateToken_same_second:
  "SignedString w = SignedString w' \<Longrightarrow> Unix t = Unix t' \<Longrightarrow>
   GenerateToken w issuer t = GenerateToken w' issuer t'"
  by (simp add: GenerateToken_def)

text \<open>
  Claim C5, on the code. \<^verbatim>\<open>GenerateToken\<close> signs the owner and the expiry in
  whole seconds and nothing else, so a rotation in the second in which the presented
  token was issued signs the same claims again: the refresh token returned is the
  presented one, and the new row has the hash of the row just revoked. The example is
  a login at time 0 (the token is signed and stored) and a rotation half a second later.
\<close>

theorem rotate_same_second:
  "GenerateToken login_world (uuid_String 2) (Add 0 (7 * 24 * Hour)) = (login_token, None) \<and>
   StoreRefreshToken login_world 2 login_token (Add 0 (7 * 24 * Hour)) [] =
     (None, [\<lparr>ID = 1, UserID = 2, TokenHash = HashToken login_token, IsRevoked = False,
              ExpiresAt = 604800000000000, CreatedAt = 0\<rparr>]) \<and>
   RotateRefreshToken refresh_world login_token
     [\<lparr>ID = 1, UserID = 2, TokenHash = HashToken login_token, IsRevoked = False,
       ExpiresAt = 604800000000000, CreatedAt = 0\<rparr>]
   = ((''00000000-0000-0000-0000-000000000002.0000000000000384'', login_token, None),
      [\<lparr>ID = 1, UserID = 2, TokenHash = HashToken login_token, IsRevoked = True,
        ExpiresAt = 604800000000000, CreatedAt = 0\<rparr>,
       \<lparr>ID = 9, UserID = 2, TokenHash = HashToken login_token, IsRevoked = False,
        ExpiresAt = 604800600000000, CreatedAt = 700000000\<rparr>])"
proof -
  let ?d = "\<lparr>ID = 1, UserID = 2, TokenHash = HashToken login_token, IsRevoked = False,
             ExpiresAt = 604800000000000, CreatedAt = 0\<rparr>"
  have s: "StoreRefreshToken login_world 2 login_token (Add 0 (7 * 24 * Hour)) [] = (None, [?d])"
    by (simp add: StoreRefreshToken_def Create_def login_world_def example_world_def
        Add_def Hour_def Minute_def Second_def)
  have q: "First [?d] (HashToken login_token) = Inr ?d"
    by (simp add: First_def)
  have n: "\<not> IsRevoked ?d"
    by simp
  have g1: "GenerateToken refresh_world (uuid_String (UserID ?d)) (Add (now1 refresh_world) (15 * Minute)) =
     (''00000000-0000-0000-0000-000000000002.0000000000000384'', None)"
    using example_tokens(4) by simp
  have g2: "GenerateToken refresh_world (uuid_String (UserID ?d)) (Add (now2 refresh_world) (7 * 24 * Hour)) =
     (login_token, None)"
    using example_tokens(5) by simp
  have f: "save_err refresh_world = None" "create_err refresh_world = None"
    "new_uuid refresh_world \<notin> set (map ID [?d])"
    by (simp_all add: refresh_world_def example_world_def)
  have r: "RotateRefreshToken refresh_world login_token [?d]
   = ((''00000000-0000-0000-0000-000000000002.0000000000000384'', login_token, None),
      [\<lparr>ID = 1, UserID = 2, TokenHash = HashToken login_token, IsRevoked = True,
        ExpiresAt = 604800000000000, CreatedAt = 0\<rparr>,
       \<lparr>ID = 9, UserID = 2, TokenHash = HashToken login_token, IsRevoked = False,
        ExpiresAt = 604800600000000, CreatedAt = 700000000\<rparr>])"
    unfolding rotate_active_success [OF q n g1 g2 f]
    by (simp add: refresh_world_def example_world_def Add_def Hour_def Minute_def Second_def)
  from example_tokens(3) s r show ?thesis
    by (intro conjI)
qed

section \<open>Logout\<close>

lemma Update_by_hash_twice:
  "Update_by_hash err' h (Update_by_hash None h t) = Update_by_hash None h t"
  by (cases err') (simp_all add: Update_by_hash_def)

lemma Update_by_hash_no_match:
  "\<forall>r \<in> set t. TokenHash r \<noteq> h \<Longrightarrow> Update_by_hash err h t = t"
  by (cases err) (simp_all add: Update_by_hash_def map_idI)

lemma Update_by_hash_other_rows:
  "i < length t \<Longrightarrow> TokenHash (t ! i) \<noteq> h \<Longrightarrow> Update_by_hash err h t ! i = t ! i"
  by (cases err) (simp_all add: Update_by_hash_def)

lemma Update_by_hash_revoked:
  "r \<in> set (Update_by_hash None h t) \<Longrightarrow> TokenHash r = h \<Longrightarrow> IsRevoked r"
proof -
  assume "r \<in> set (Update_by_hash None h t)" and h: "TokenHash r = h"
  then have "r \<in> (\<lambda>x. if TokenHash x = h then x\<lparr>IsRevoked := True\<rparr> else x) ` set t"
    by (simp only: Update_by_hash_def option.case set_map)
  then obtain x where x: "r = (if TokenHash x = h then x\<lparr>IsRevoked := True\<rparr> else x)"
    by (rule imageE)
  show ?thesis
  proof (cases "TokenHash x = h")
    case True
    with x show ?thesis
      by simp
  next
    case False
    with x h show ?thesis
      by simp
  qed
qed

lemma fst_Logout:
  "fst (Logout w c t) =
     (None, \<lparr>status = 200, body = [(''message'', ''Logged out successfully'')],
             cleared = [''refresh_token'']\<rparr>)"
  by (simp add: Logout_def)

lemma snd_Logout:
  "snd (Logout w c t) = Update_by_hash (update_err w) (HashToken (Cookies c ''refresh_token'')) t"
  by (simp add: Logout_def)

text \<open>
  Claim C8. Two calls of \<^verbatim>\<open>Logout\<close> with the same cookie, the update of the first
  one executing: both return no error and the success response; the second leaves the
  table the first left, whether its own update executes or not. After the first call
  every row with the hash of the cookie is revoked, and every row with another hash is as
  it was before.
\<close>

theorem Logout_twice:
  assumes "update_err w1 = None"
  shows "fst (Logout w1 c t) =
           (None, \<lparr>status = 200, body = [(''message'', ''Logged out successfully'')],
                   cleared = [''refresh_token'']\<rparr>) \<and>
         fst (Logout w2 c (snd (Logout w1 c t))) =
           (None, \<lparr>status = 200, body = [(''message'', ''Logged out successfully'')],
                   cleared = [''refresh_token'']\<rparr>) \<and>
         snd (Logout w2 c (snd (Logout w1 c t))) = snd (Logout w1 c t) \<and>
         (\<forall>r \<in> set (snd (Logout w1 c t)).
            TokenHash r = HashToken (Cookies c ''refresh_token'') \<longrightarrow> IsRevoked r) \<and>
         (\<forall>i < length t. TokenHash (t ! i) \<noteq> HashToken (Cookies c ''refresh_token'') \<longrightarrow>
            snd (Logout w1 c t) ! i = t ! i)"
proof (intro conjI ballI allI impI)
  show "snd (Logout w2 c (snd (Logout w1 c t))) = snd (Logout w1 c t)"
    unfolding snd_Logout assms by (rule Update_by_hash_twice)
next
  fix r
  assume "r \<in> set (snd (Logout w1 c t))" and "TokenHash r = HashToken (Cookies c ''refresh_token'')"
  then show "IsRevoked r"
    unfolding snd_Logout assms by (rule Update_by_hash_revoked)
next
  fix i
  assume "i < length t" and "TokenHash (t ! i) \<noteq> HashToken (Cookies c ''refresh_token'')"
  then show "snd (Logout w1 c t) ! i = t ! i"
    unfolding snd_Logout by (rule Update_by_hash_other_rows)
qed (rule fst_Logout)+

text \<open>
  The second session of the owner is logged out twice; the second call is made while
  the database refuses writes.
\<close>

theorem Logout_twice_witness:
  "update_err example_world = None \<and>
   snd (Logout example_world (Map.empty(''refresh_token'' \<mapsto> ''a'')) owner_table) =
     [\<lparr>ID = 1, UserID = 2, TokenHash = HashToken ''abc'', IsRevoked = False,
       ExpiresAt = 604800000000000, CreatedAt = 0\<rparr>,
      \<lparr>ID = 3, UserID = 2, TokenHash = HashToken ''a'', IsRevoked = True,
       ExpiresAt = 1123200000000000, CreatedAt = 518400000000000\<rparr>] \<and>
   snd (Logout (example_world\<lparr>update_err := Some (DBErr ''database is locked'')\<rparr>)
          (Map.empty(''refresh_token'' \<mapsto> ''a''))
          (snd (Logout example_world (Map.empty(''refresh_token'' \<mapsto> ''a'')) owner_table)))
   = snd (Logout example_world (Map.empty(''refresh_token'' \<mapsto> ''a'')) owner_table)"
proof -
  have u: "update_err example_world = None"
    by (simp add: example_world_def)
  have "snd (Logout example_world (Map.empty(''refresh_token'' \<mapsto> ''a'')) owner_table) =
     [\<lparr>ID = 1, UserID = 2, TokenHash = HashToken ''abc'', IsRevoked = False,
       ExpiresAt = 604800000000000, CreatedAt = 0\<rparr>,
      \<lparr>ID = 3, UserID = 2, TokenHash = HashToken ''a'', IsRevoked = True,
       ExpiresAt = 1123200000000000, CreatedAt = 518400000000000\<rparr>]"
    by (simp add: snd_Logout u Update_by_hash_def Cookies_def owner_table_def
        HashToken_examples_differ)
  with u Logout_twice [OF u, THEN conjunct2, THEN conjunct2, THEN conjunct1] show ?thesis
    by (intro conjI)
qed

text \<open>
  Claim C9. \<^verbatim>\<open>Logout\<close> returns no error and the success response, with the cookie
  cleared, for every request, table and outcome of its update: also when the request has
  no cookie, when no row has the hash of the cookie, and when the update fails. When no
  row has the hash of the cookie, the table is left as it was.
\<close>

theorem Logout_reports_success:
  "fst (Logout w c t) =
     (None, \<lparr>status = 200, body = [(''message'', ''Logged out successfully'')],
             cleared = [''refresh_token'']\<rparr>) \<and>
   ((\<forall>r \<in> set t. TokenHash r \<noteq> HashToken (Cookies c ''refresh_token'')) \<longrightarrow>
      snd (Logout w c t) = t)"
  by (simp add: fst_Logout snd_Logout Update_by_hash_no_match)

text \<open>A request without the cookie, while the database refuses writes.\<close>

theorem Logout_reports_success_witness:
  "Cookies Map.empty ''refresh_token'' = '''' \<and>
   map TokenHash owner_table = [HashToken ''abc'', HashToken ''a''] \<and>
   HashToken ''abc'' \<noteq> HashToken '''' \<and> HashToken ''a'' \<noteq> HashToken '''' \<and>
   Logout (example_world\<lparr>update_err := Some (DBErr ''database is locked'')\<rparr>) Map.empty
     owner_table =
     ((None, \<lparr>status = 200, body = [(''message'', ''Logged out successfully'')],
              cleared = [''refresh_token'']\<rparr>), owner_table)"
proof -
  let ?w = "example_world\<lparr>update_err := Some (DBErr ''database is locked'')\<rparr>"
  have c: "Cookies Map.empty ''refresh_token'' = ''''"
    by (simp add: Cookies_def)
  have m: "map TokenHash owner_table = [HashToken ''abc'', HashToken ''a'']"
    by (simp add: owner_table_def)
  have h: "\<forall>r \<in> set owner_table. TokenHash r \<noteq> HashToken (Cookies Map.empty ''refresh_token'')"
    by (simp add: c owner_table_def HashToken_examples_differ)
  note th = Logout_reports_success [of ?w Map.empty owner_table]
  from th h have "snd (Logout ?w Map.empty owner_table) = owner_table"
    by (elim conjE impE)
  moreover from th have "fst (Logout ?w Map.empty owner_table) =
     (None, \<lparr>status = 200, body = [(''message'', ''Logged out successfully'')],
             cleared = [''refresh_token'']\<rparr>)"
    by (rule conjunct1)
  ultimately have "Logout ?w Map.empty owner_table =
     ((None, \<lparr>status = 200, body = [(''message'', ''Logged out successfully'')],
              cleared = [''refresh_token'']\<rparr>), owner_table)"
    by (simp add: prod_eq_iff)
  with c m HashToken_examples_differ(3,5) show ?thesis
    by (intro conjI)
qed

section \<open>Revocation is never undone\<close>

lemma revoked_kept_iff:
  "revoked_kept t t' \<longleftrightarrow>
     length t \<le> length t' \<and>
     (\<forall>i < length t. ID (t' ! i) = ID (t ! i) \<and> (IsRevoked (t ! i) \<longrightarrow> IsRevoked (t' ! i)))"
  by (auto simp: revoked_kept_def list_all_length)

lemma revoked_kept_refl: "revoked_kept t t"
  by (simp add: revoked_kept_iff)

lemma revoked_kept_trans:
  assumes "revoked_kept a b" and "revoked_kept b c"
  shows "revoked_kept a c"
  unfolding revoked_kept_iff
proof (intro conjI allI impI)
  show "length a \<le> length c"
    using assms by (simp add: revoked_kept_iff)
next
  fix i
  assume i: "i < length a"
  then have "i < length b"
    using assms(1) by (simp add: revoked_kept_iff)
  then show "ID (c ! i) = ID (a ! i)"
    using assms i by (simp add: revoked_kept_iff)
  assume "IsRevoked (a ! i)"
  then have "IsRevoked (b ! i)"
    using assms(1) i by (simp add: revoked_kept_iff)
  then show "IsRevoked (c ! i)"
    using assms(2) \<open>i < length b\<close> by (simp add: revoked_kept_iff)
qed

lemma revoked_kept_map:
  assumes "\<And>r. ID (f r) = ID r" and "\<And>r. IsRevoked r \<Longrightarrow> IsRevoked (f r)"
  shows "revoked_kept t (map f t)"
  using assms by (simp add: revoked_kept_iff)

lemma revoked_kept_append: "revoked_kept t (t @ xs)"
  by (simp add: revoked_kept_iff nth_append)

lemma revoked_kept_Update_by_user: "revoked_kept t (Update_by_user err uid t)"
proof (cases err)
  case None
  show ?thesis
    unfolding Update_by_user_def None option.case
    by (rule revoked_kept_map) simp_all
next
  case (Some e)
  then show ?thesis
    by (simp add: Update_by_user_def revoked_kept_refl)
qed

lemma revoked_kept_Update_by_hash: "revoked_kept t (Update_by_hash err h t)"
proof (cases err)
  case None
  show ?thesis
    unfolding Update_by_hash_def None option.case
    by (rule revoked_kept_map) simp_all
next
  case (Some e)
  then show ?thesis
    by (simp add: Update_by_hash_def revoked_kept_refl)
qed

lemma revoked_kept_Save: "revoked_kept t (Save err (d\<lparr>IsRevoked := True\<rparr>) t)"
proof (cases err)
  case None
  show ?thesis
    unfolding Save_def None option.case
    by (rule revoked_kept_map) simp_all
next
  case (Some e)
  then show ?thesis
    by (simp add: Save_def revoked_kept_refl)
qed

lemma revoked_kept_Rotate: "revoked_kept t (snd (RotateRefreshToken w tok t))"
proof (cases "First t (HashToken tok)")
  case (Inl e)
  then show ?thesis
    by (simp add: rotate_not_found revoked_kept_refl)
next
  case (Inr d)
  show ?thesis
  proof (cases "IsRevoked d")
    case True
    with Inr show ?thesis
      by (simp add: rotate_revoked revoked_kept_Update_by_user)
  next
    case False
    from rotate_active_table [OF Inr False, of w] show ?thesis
    proof
      assume "snd (RotateRefreshToken w tok t) = t"
      then show ?thesis
        by (simp add: revoked_kept_refl)
    next
      assume "\<exists>v. snd (RotateRefreshToken w tok t) = Save (save_err w) (d\<lparr>IsRevoked := True\<rparr>) t @ [v]"
      then obtain v where v: "snd (RotateRefreshToken w tok t) = Save (save_err w) (d\<lparr>IsRevoked := True\<rparr>) t @ [v]"
        by blast
      show ?thesis
        unfolding v by (rule revoked_kept_trans [OF revoked_kept_Save revoked_kept_append])
    qed
  qed
qed

lemma revoked_kept_Logout: "revoked_kept t (snd (Logout w c t))"
  by (simp add: snd_Logout revoked_kept_Update_by_hash)

lemma revoked_kept_Store: "revoked_kept t (snd (StoreRefreshToken w u token e t))"
proof (cases "Create w \<lparr>ID = 0, UserID = u, TokenHash = HashToken token, IsRevoked = False,
                         ExpiresAt = e, CreatedAt = 0\<rparr> t")
  case (Inl err)
  then show ?thesis
    by (simp add: StoreRefreshToken_def revoked_kept_refl)
next
  case (Inr t')
  then obtain v where "t' = t @ [v]"
    using Create_Inr_D by blast
  with Inr show ?thesis
    by (simp add: StoreRefreshToken_def revoked_kept_append)
qed

lemma revoked_kept_step: "revoked_kept t (step x t)"
  by (cases x)
    (simp_all add: revoked_kept_Rotate revoked_kept_Logout revoked_kept_Store
      revoked_kept_Update_by_user)

lemma revoked_kept_run: "revoked_kept t (run ops t)"
  unfolding run_def
proof (induction ops arbitrary: t)
  case Nil
  show ?case
    by (simp add: revoked_kept_refl)
next
  case (Cons x ops)
  have "revoked_kept (step x t) (fold step ops (step x t))"
    by (rule Cons.IH)
  with revoked_kept_step [of t x] show ?case
    by (simp add: revoked_kept_trans)
qed

text \<open>
  Claim C7. Whatever sequence of rotations, logouts, stored sessions and bulk updates by
  owner runs on a table, with whatever tokens, clock readings, signing results and
  failing statements: every row of the table is still there afterwards, at its place and
  with its \<^verbatim>\<open>ID\<close>, and a row that was revoked before is revoked after. No
  operation writes \<^verbatim>\<open>IsRevoked\<close> back to false.
\<close>

theorem revoked_never_reset:
  "revoked_kept t (run ops t) \<and>
   (\<forall>i < length t. IsRevoked (t ! i) \<longrightarrow>
      i < length (run ops t) \<and> ID (run ops t ! i) = ID (t ! i) \<and> IsRevoked (run ops t ! i))"
proof (intro conjI allI impI)
  show k: "revoked_kept t (run ops t)"
    by (rule revoked_kept_run)
  fix i
  assume "i < length t" and "IsRevoked (t ! i)"
  with k show "i < length (run ops t)" "ID (run ops t ! i) = ID (t ! i)" "IsRevoked (run ops t ! i)"
    by (simp_all add: revoked_kept_iff)
qed

text \<open>
  On the table of the reuse example: the owner's second session is logged out, the
  revoked token is presented again, and a session is stored for the other owner.
\<close>

theorem revoked_never_reset_witness:
  "IsRevoked (reuse_table ! 0) \<and>
   run [OpLogout example_world (Map.empty(''refresh_token'' \<mapsto> ''a'')),
        OpRotate example_world ''abc'',
        OpStore example_world 5 ''abc'' 99] reuse_table =
     [\<lparr>ID = 1, UserID = 2, TokenHash = HashToken ''abc'', IsRevoked = True,
       ExpiresAt = 50, CreatedAt = 0\<rparr>,
      \<lparr>ID = 3, UserID = 2, TokenHash = HashToken ''a'', IsRevoked = True,
       ExpiresAt = 60, CreatedAt = 10\<rparr>,
      \<lparr>ID = 4, UserID = 5, TokenHash = HashToken '''', IsRevoked = False,
       ExpiresAt = 70, CreatedAt = 20\<rparr>,
      \<lparr>ID = 9, UserID = 5, TokenHash = HashToken ''abc'', IsRevoked = False,
       ExpiresAt = 99, CreatedAt = 0\<rparr>] \<and>
   revoked_kept reuse_table
     (run [OpLogout example_world (Map.empty(''refresh_token'' \<mapsto> ''a'')),
           OpRotate example_world ''abc'',
           OpStore example_world 5 ''abc'' 99] reuse_table) \<and>
   IsRevoked (run [OpLogout example_world (Map.empty(''refresh_token'' \<mapsto> ''a'')),
                   OpRotate example_world ''abc'',
                   OpStore example_world 5 ''abc'' 99] reuse_table ! 0)"
proof -
  let ?ops = "[OpLogout example_world (Map.empty(''refresh_token'' \<mapsto> ''a'')),
               OpRotate example_world ''abc'',
               OpStore example_world 5 ''abc'' 99]"
  let ?t1 = "[\<lparr>ID = 1, UserID = 2, TokenHash = HashToken ''abc'', IsRevoked = True,
               ExpiresAt = 50, CreatedAt = 0\<rparr>,
              \<lparr>ID = 3, UserID = 2, TokenHash = HashToken ''a'', IsRevoked = True,
               ExpiresAt = 60, CreatedAt = 10\<rparr>,
              \<lparr>ID = 4, UserID = 5, TokenHash = HashToken '''', IsRevoked = False,
               ExpiresAt = 70, CreatedAt = 20\<rparr>]"
  have u: "update_err example_world = None"
    by (simp add: example_world_def)
  have s1: "snd (Logout example_world (Map.empty(''refresh_token'' \<mapsto> ''a'')) reuse_table) = ?t1"
    by (simp add: snd_Logout u Update_by_hash_def Cookies_def reuse_table_def
        HashToken_examples_differ)
  have q: "First ?t1 (HashToken ''abc'') =
     Inr \<lparr>ID = 1, UserID = 2, TokenHash = HashToken ''abc'', IsRevoked = True,
          ExpiresAt = 50, CreatedAt = 0\<rparr>"
    by (simp add: First_def HashToken_examples_differ)
  have s2: "snd (RotateRefreshToken example_world ''abc'' ?t1) = ?t1"
    by (simp add: rotate_revoked [OF q] u Update_by_user_def)
  have s3: "snd (StoreRefreshToken example_world 5 ''abc'' 99 ?t1) =
     ?t1 @ [\<lparr>ID = 9, UserID = 5, TokenHash = HashToken ''abc'', IsRevoked = False,
              ExpiresAt = 99, CreatedAt = 0\<rparr>]"
    by (simp add: StoreRefreshToken_def Create_def example_world_def)
  have r: "run ?ops reuse_table =
     ?t1 @ [\<lparr>ID = 9, UserID = 5, TokenHash = HashToken ''abc'', IsRevoked = False,
              ExpiresAt = 99, CreatedAt = 0\<rparr>]"
    by (simp add: run_def s1 s2 s3)
  have z: "IsRevoked (reuse_table ! 0)" "0 < length reuse_table"
    by (simp_all add: reuse_table_def)
  note th = revoked_never_reset [of reuse_table ?ops]
  from th have k: "revoked_kept reuse_table (run ?ops reuse_table)"
    by (rule conjunct1)
  from th z have "IsRevoked (run ?ops reuse_table ! 0)"
    by blast
  with z(1) r k show ?thesis
    by simp
qed

end
